theory Spec2Isabelle
  imports Main "HOL-Library.Word"
begin

section \<open>Data model of main.go\<close>

text \<open>
  The service of \<^verbatim>\<open>main.go\<close> (the revision with the five handlers Signup, GetAllUsers,
  Login, UpdateScore and GetHighestScore) keeps all its state in a Redis server reached
  through the global \<^verbatim>\<open>redisClient\<close>. Go's \<^verbatim>\<open>int\<close> is taken at 64 bits, so that
  \<^verbatim>\<open>score += user.Score\<close> wraps around as it does on the usual targets.
\<close>

type_synonym goint = "64 word"

record User =
  Email :: string
  Password :: string
  Score :: goint

datatype json =
    JNull
  | JNum int
  | JStr string
  | JArr "json list"
  | JObj "(string \<times> json) list"

datatype http_method = MethodGet | MethodPost | MethodOptions

text \<open>
  A request as a handler sees it: the method, and what \<^verbatim>\<open>json.NewDecoder(r.Body).Decode(&user)\<close>
  makes of the body. \<open>None\<close> stands for a Decode that returns an error (malformed JSON, a
  field of the wrong JSON type, an empty body); \<open>Some u\<close> is the decoded struct, absent
  fields left at their zero values.
\<close>

record request =
  rmethod :: http_method
  rbody :: "User option"

datatype body = NoBody | Plain string | Json json

record response =
  status :: nat
  content :: body

subsection \<open>The Redis server behind redisClient\<close>

text \<open>
  One keyspace; a key holds a string or a hash (field/value pairs, each field once).
  Commands on a key of the other type are answered with WRONGTYPE.
\<close>

datatype rvalue = Str string | Hash "(string \<times> string) list"

type_synonym store = "string \<Rightarrow> rvalue option"

datatype redis_err = RedisNil | WrongType | NotInt | IOErr

datatype command =
    GET string
  | HGET string string
  | HSET string string string
  | HGETALL string

text \<open>
  The client's world: the server's keyspace \<open>db\<close>, the list \<open>issued\<close> of commands sent so
  far, and \<open>faulty\<close>, which says of the n-th command sent whether the round trip fails (a
  connection error). A failed command is taken not to have reached the keyspace.
\<close>

record redis_client =
  db :: store
  faulty :: "nat \<Rightarrow> bool"
  issued :: "command list"

definition roundtrip :: "command \<Rightarrow> redis_client \<Rightarrow> bool \<times> redis_client" where
  "roundtrip c rc = (faulty rc (length (issued rc)), rc\<lparr>issued := issued rc @ [c]\<rparr>)"

definition redis_Get :: "string \<Rightarrow> redis_client \<Rightarrow> (redis_err + string) \<times> redis_client" where
  "redis_Get key rc =
     (case roundtrip (GET key) rc of (failed, rc') \<Rightarrow>
        (if failed then Inl IOErr
         else (case db rc key of
                 None \<Rightarrow> Inl RedisNil
               | Some (Str s) \<Rightarrow> Inr s
               | Some (Hash h) \<Rightarrow> Inl WrongType),
         rc'))"

definition redis_HGet ::
  "string \<Rightarrow> string \<Rightarrow> redis_client \<Rightarrow> (redis_err + string) \<times> redis_client" where
  "redis_HGet key field rc =
     (case roundtrip (HGET key field) rc of (failed, rc') \<Rightarrow>
        (if failed then Inl IOErr
         else (case db rc key of
                 None \<Rightarrow> Inl RedisNil
               | Some (Str s) \<Rightarrow> Inl WrongType
               | Some (Hash h) \<Rightarrow>
                   (case map_of h field of None \<Rightarrow> Inl RedisNil | Some v \<Rightarrow> Inr v)),
         rc'))"

definition redis_HGetAll ::
  "string \<Rightarrow> redis_client \<Rightarrow> (redis_err + (string \<times> string) list) \<times> redis_client" where
  "redis_HGetAll key rc =
     (case roundtrip (HGETALL key) rc of (failed, rc') \<Rightarrow>
        (if failed then Inl IOErr
         else (case db rc key of
                 None \<Rightarrow> Inr []
               | Some (Str s) \<Rightarrow> Inl WrongType
               | Some (Hash h) \<Rightarrow> Inr h),
         rc'))"

fun hash_put :: "string \<Rightarrow> string \<Rightarrow> (string \<times> string) list \<Rightarrow> (string \<times> string) list" where
  "hash_put f v [] = [(f, v)]"
| "hash_put f v ((g, u) # h) = (if g = f then (f, v) # h else (g, u) # hash_put f v h)"

definition redis_HSet ::
  "string \<Rightarrow> string \<Rightarrow> string \<Rightarrow> redis_client \<Rightarrow> (redis_err + unit) \<times> redis_client" where
  "redis_HSet key field v rc =
     (case roundtrip (HSET key field v) rc of (failed, rc') \<Rightarrow>
        if failed then (Inl IOErr, rc')
        else (case db rc key of
                None \<Rightarrow> (Inr (), rc'\<lparr>db := (db rc)(key \<mapsto> Hash [(field, v)])\<rparr>)
              | Some (Str s) \<Rightarrow> (Inl WrongType, rc')
              | Some (Hash h) \<Rightarrow> (Inr (), rc'\<lparr>db := (db rc)(key \<mapsto> Hash (hash_put field v h))\<rparr>)))"

text \<open>\<^verbatim>\<open>val, err := cmd.Result()\<close>: the value is the zero string when there is an error.\<close>

definition val_of :: "redis_err + string \<Rightarrow> string" where
  "val_of res = (case res of Inl e \<Rightarrow> [] | Inr s \<Rightarrow> s)"

text \<open>The test \<^verbatim>\<open>err != nil && err != redis.Nil\<close>.\<close>

definition real_error :: "redis_err + 'a \<Rightarrow> bool" where
  "real_error res = (case res of Inl e \<Rightarrow> e \<noteq> RedisNil | Inr x \<Rightarrow> False)"

subsection \<open>Integers in the store: strconv\<close>

text \<open>
  go-redis writes an \<^verbatim>\<open>int\<close> argument in decimal (\<^verbatim>\<open>strconv.AppendInt\<close>) and
  \<^verbatim>\<open>StringCmd.Int\<close> reads it back with \<^verbatim>\<open>strconv.Atoi\<close>: an optional sign, at least one
  decimal digit, nothing else, and a value that fits the 64 bits.
\<close>

definition digit :: "char \<Rightarrow> nat option" where
  "digit c = (let n = (of_char c :: nat) in if 48 \<le> n \<and> n \<le> 57 then Some (n - 48) else None)"

fun digits_val :: "nat \<Rightarrow> string \<Rightarrow> nat option" where
  "digits_val acc [] = Some acc"
| "digits_val acc (c # cs) =
     (case digit c of None \<Rightarrow> None | Some d \<Rightarrow> digits_val (acc * 10 + d) cs)"

definition Atoi :: "string \<Rightarrow> goint option" where
  "Atoi s =
     (case s of
        [] \<Rightarrow> None
      | c # cs \<Rightarrow>
          (let neg = (c = CHR ''-'');
               ds = (if c = CHR ''-'' \<or> c = CHR ''+'' then cs else s)
           in if ds = [] then None
              else (case digits_val 0 ds of
                      None \<Rightarrow> None
                    | Some n \<Rightarrow>
                        (let i = (if neg then - int n else int n)
                         in if - (2 ^ 63) \<le> i \<and> i < 2 ^ 63 then Some (word_of_int i)
                            else None))))"

definition digit_char :: "nat \<Rightarrow> char" where
  "digit_char d = char_of (48 + d)"

fun digits_of :: "nat \<Rightarrow> string" where
  "digits_of n = (if n < 10 then [digit_char n] else digits_of (n div 10) @ [digit_char (n mod 10)])"

definition FormatInt :: "goint \<Rightarrow> string" where
  "FormatInt w =
     (let i = sint w in if i < 0 then CHR ''-'' # digits_of (nat (- i)) else digits_of (nat i))"

text \<open>\<^verbatim>\<open>StringCmd.Int\<close>: the command's error if it has one, else the result of Atoi.\<close>

definition StringCmd_Int :: "redis_err + string \<Rightarrow> redis_err + goint" where
  "StringCmd_Int res =
     (case res of
        Inl e \<Rightarrow> Inl e
      | Inr s \<Rightarrow> (case Atoi s of None \<Rightarrow> Inl NotInt | Some n \<Rightarrow> Inr n))"

definition int_of :: "redis_err + goint \<Rightarrow> goint" where
  "int_of res = (case res of Inl e \<Rightarrow> 0 | Inr n \<Rightarrow> n)"

subsection \<open>Responses\<close>

text \<open>
  \<^verbatim>\<open>http.Error\<close> writes the status and the message followed by a newline as plain text;
  \<^verbatim>\<open>fmt.Fprintln\<close> after \<^verbatim>\<open>WriteHeader\<close> does the same for the success texts. A handler
  that returns without writing anything answers 200 with an empty body (net/http). The
  CORS headers the handlers set are the same on every path and are left out.
\<close>

definition http_Error :: "string \<Rightarrow> nat \<Rightarrow> response" where
  "http_Error msg code = \<lparr>status = code, content = Plain (msg @ [CHR 0x0A])\<rparr>"

definition Fprintln :: "nat \<Rightarrow> string \<Rightarrow> response" where
  "Fprintln code msg = \<lparr>status = code, content = Plain (msg @ [CHR 0x0A])\<rparr>"

definition no_write :: response where
  "no_write = \<lparr>status = 200, content = NoBody\<rparr>"

definition ErrorResponse :: "string \<Rightarrow> json" where
  "ErrorResponse msg = JObj [(''message'', JStr msg)]"

text \<open>
  \<^verbatim>\<open>w.WriteHeader(code)\<close> followed by \<^verbatim>\<open>json.NewEncoder(w).Encode(v)\<close>, or by
  \<^verbatim>\<open>w.Write(jsonData)\<close> in GetAllUsersHandler: the status and the JSON value sent.
\<close>

definition Encode :: "nat \<Rightarrow> json \<Rightarrow> response" where
  "Encode code j = \<lparr>status = code, content = Json j\<rparr>"

definition User_json :: "User \<Rightarrow> json" where
  "User_json u =
     JObj [(''email'', JStr (Email u)), (''password'', JStr (Password u)),
           (''score'', JNum (sint (Score u)))]"

text \<open>
  A Go slice of users: \<open>None\<close> is the nil slice that \<^verbatim>\<open>var users []User\<close> declares,
  \<^verbatim>\<open>append\<close> makes it a slice with elements, and \<^verbatim>\<open>json.Marshal\<close> encodes a nil
  slice as \<^verbatim>\<open>null\<close> and any other as an array.
\<close>

definition append_user :: "User list option \<Rightarrow> User \<Rightarrow> User list option" where
  "append_user users u = (case users of None \<Rightarrow> Some [u] | Some us \<Rightarrow> Some (us @ [u]))"

definition Marshal :: "User list option \<Rightarrow> json" where
  "Marshal users = (case users of None \<Rightarrow> JNull | Some us \<Rightarrow> JArr (map User_json us))"

section \<open>The handlers\<close>

definition SignupHandler :: "request \<Rightarrow> redis_client \<Rightarrow> response \<times> redis_client" where
  "SignupHandler r rc =
     (if rmethod r = MethodOptions then (no_write, rc)
      else case rbody r of
        None \<Rightarrow> (http_Error ''Invalid request body'' 400, rc)
      | Some user \<Rightarrow>
          (case redis_Get (Email user) rc of (res, rc1) \<Rightarrow>
             if real_error res then (http_Error ''Error checking user existence'' 500, rc1)
             else if val_of res \<noteq> [] then (Encode 400 (ErrorResponse ''User already exists''), rc1)
             else (case redis_HSet ''users'' (Email user) (Password user) rc1 of (res2, rc2) \<Rightarrow>
                     (case res2 of
                        Inl e \<Rightarrow> (http_Error ''Error storing user data'' 500, rc2)
                      | Inr ok \<Rightarrow> (Fprintln 201 ''User signed up successfully'', rc2)))))"

text \<open>
  \<^verbatim>\<open>for email, password := range usersMap\<close> visits every entry once, in an order Go leaves
  open; the model visits them in the order of the list. \<^verbatim>\<open>json.Marshal\<close> cannot fail on
  a slice of structs of strings and an int, so its error branch has no counterpart here.
\<close>

definition GetAllUsersHandler :: "request \<Rightarrow> redis_client \<Rightarrow> response \<times> redis_client" where
  "GetAllUsersHandler r rc =
     (case redis_HGetAll ''users'' rc of (res, rc1) \<Rightarrow>
        (case res of
           Inl e \<Rightarrow> (http_Error ''Error retrieving user data'' 500, rc1)
         | Inr usersMap \<Rightarrow>
             (let users = fold (\<lambda>(email, password) users.
                             append_user users \<lparr>Email = email, Password = password, Score = 0\<rparr>)
                           usersMap None
              in (Encode 200 (Marshal users), rc1))))"

definition LoginHandler :: "request \<Rightarrow> redis_client \<Rightarrow> response \<times> redis_client" where
  "LoginHandler r rc =
     (if rmethod r = MethodOptions then (no_write, rc)
      else case rbody r of
        None \<Rightarrow> (http_Error ''Invalid request body'' 400, rc)
      | Some user \<Rightarrow>
          (case redis_Get (Email user) rc of (res, rc1) \<Rightarrow>
             (case res of
                Inl e \<Rightarrow>
                  if e = RedisNil then (http_Error ''User not found'' 404, rc1)
                  else (http_Error ''Error retrieving user data'' 500, rc1)
              | Inr password \<Rightarrow>
                  if Password user \<noteq> password
                  then (Encode 401 (ErrorResponse ''Incorrect password''), rc1)
                  else (Encode 200 (ErrorResponse ''Login successful''), rc1))))"

definition UpdateScoreHandler :: "request \<Rightarrow> redis_client \<Rightarrow> response \<times> redis_client" where
  "UpdateScoreHandler r rc =
     (if rmethod r = MethodOptions then (no_write, rc)
      else case rbody r of
        None \<Rightarrow> (http_Error ''Invalid request body'' 400, rc)
      | Some user \<Rightarrow>
          (case redis_HGet ''users'' (Email user) rc of (res, rc1) \<Rightarrow>
             if real_error res then (http_Error ''Error checking user existence'' 500, rc1)
             else if val_of res = [] then (Encode 404 (ErrorResponse ''User not found''), rc1)
             else (case redis_HGet ''scores'' (Email user) rc1 of (res2, rc2) \<Rightarrow>
                     if real_error (StringCmd_Int res2)
                     then (http_Error ''Error retrieving user score'' 500, rc2)
                     else (let score = int_of (StringCmd_Int res2) + Score user
                           in case redis_HSet ''scores'' (Email user) (FormatInt score) rc2 of
                                (res3, rc3) \<Rightarrow>
                                  (case res3 of
                                     Inl e \<Rightarrow> (http_Error ''Error updating user score'' 500, rc3)
                                   | Inr ok \<Rightarrow>
                                       (Fprintln 200 ''User score updated successfully'', rc3))))))"

definition GetHighestScoreHandler :: "request \<Rightarrow> redis_client \<Rightarrow> response \<times> redis_client" where
  "GetHighestScoreHandler r rc =
     (if rmethod r = MethodOptions then (no_write, rc)
      else case rbody r of
        None \<Rightarrow> (http_Error ''Invalid request body'' 400, rc)
      | Some user \<Rightarrow>
          (case redis_HGet ''scores'' (Email user) rc of (res, rc1) \<Rightarrow>
             if real_error (StringCmd_Int res)
             then (http_Error ''Error retrieving user score'' 500, rc1)
             else (Encode 200 (JObj [(''score'', JNum (sint (int_of (StringCmd_Int res))))]), rc1)))"

section \<open>Reading the store\<close>

text \<open>
  The notions the specification speaks in. A collection is the hash under a key, and an
  absent key is the empty collection; \<open>is_coll\<close> excludes a key that holds a string.
  \<open>field_of\<close> is the entry of a collection, \<open>score_of\<close> the score the "scores"
  collection records for an email: 0 when it has no entry, nothing when the entry is not
  a 64-bit decimal (or "scores" is no collection).
\<close>

definition healthy :: "redis_client \<Rightarrow> bool" where
  "healthy rc = (\<forall>n. \<not> faulty rc n)"

definition is_coll :: "store \<Rightarrow> string \<Rightarrow> bool" where
  "is_coll st key = (case st key of Some (Str s) \<Rightarrow> False | _ \<Rightarrow> True)"

definition field_of :: "store \<Rightarrow> string \<Rightarrow> string \<Rightarrow> string option" where
  "field_of st key field = (case st key of Some (Hash h) \<Rightarrow> map_of h field | _ \<Rightarrow> None)"

definition score_of :: "store \<Rightarrow> string \<Rightarrow> goint option" where
  "score_of st email =
     (case st ''scores'' of
        None \<Rightarrow> Some 0
      | Some (Str s) \<Rightarrow> None
      | Some (Hash h) \<Rightarrow> (case map_of h email of None \<Rightarrow> Some 0 | Some v \<Rightarrow> Atoi v))"

text \<open>The commands sent between two states of the client, and the writes among them.\<close>

definition since :: "redis_client \<Rightarrow> redis_client \<Rightarrow> command list" where
  "since rc rc' = drop (length (issued rc)) (issued rc')"

fun is_write :: "command \<Rightarrow> bool" where
  "is_write (HSET key field v) = True"
| "is_write c = False"

fun writes_key :: "string \<Rightarrow> command \<Rightarrow> bool" where
  "writes_key k (HSET key field v) = (key = k)"
| "writes_key k c = False"

subsection \<open>Requests and stores used as concrete inputs\<close>

definition fresh_client :: redis_client where
  "fresh_client = \<lparr>db = (\<lambda>k. None), faulty = (\<lambda>n. False), issued = []\<rparr>"

definition seeded_client :: "(string \<times> string) list \<Rightarrow> redis_client" where
  "seeded_client us = \<lparr>db = (\<lambda>k. None)(''users'' \<mapsto> Hash us), faulty = (\<lambda>n. False), issued = []\<rparr>"

definition post :: "string \<Rightarrow> string \<Rightarrow> goint \<Rightarrow> request" where
  "post e p s = \<lparr>rmethod = MethodPost, rbody = Some \<lparr>Email = e, Password = p, Score = s\<rparr>\<rparr>"

definition get_req :: "string \<Rightarrow> request" where
  "get_req e = \<lparr>rmethod = MethodGet, rbody = Some \<lparr>Email = e, Password = [], Score = 0\<rparr>\<rparr>"

definition undecodable :: "http_method \<Rightarrow> request" where
  "undecodable m = \<lparr>rmethod = m, rbody = None\<rparr>"

section \<open>strconv: what FormatInt writes, Atoi reads back\<close>

declare digits_of.simps [simp del]

lemma digit_digit_char: "d < 10 \<Longrightarrow> digit (digit_char d) = Some d"
  by (simp add: digit_def digit_char_def Let_def)

lemma digits_val_append:
  "digits_val acc (xs @ ys) =
     (case digits_val acc xs of None \<Rightarrow> None | Some a \<Rightarrow> digits_val a ys)"
  by (induction xs arbitrary: acc) (auto split: option.splits)

lemma digits_val_digits_of: "digits_val 0 (digits_of n) = Some n"
proof (induction n rule: digits_of.induct)
  case (1 n)
  show ?case
  proof (cases "n < 10")
    case True
    then show ?thesis
      by (subst digits_of.simps) (simp add: digit_digit_char)
  next
    case False
    with 1 have "digits_val 0 (digits_of (n div 10)) = Some (n div 10)" by simp
    with False show ?thesis
      by (subst digits_of.simps) (simp add: digits_val_append digit_digit_char)
  qed
qed

lemma digits_of_head: "\<exists>c cs. digits_of n = c # cs \<and> digit c \<noteq> None"
proof (induction n rule: digits_of.induct)
  case (1 n)
  show ?case
  proof (cases "n < 10")
    case True
    then show ?thesis
      by (subst digits_of.simps) (simp add: digit_digit_char)
  next
    case False
    with 1 obtain c cs where "digits_of (n div 10) = c # cs" "digit c \<noteq> None" by auto
    with False show ?thesis
      by (subst digits_of.simps) simp
  qed
qed

lemma digit_sign: "digit (CHR ''-'') = None" "digit (CHR ''+'') = None"
  by (simp_all add: digit_def)

lemma Atoi_digits_of:
  assumes "int n < 2 ^ 63"
  shows "Atoi (digits_of n) = Some (word_of_int (int n))"
proof -
  obtain c cs where d: "digits_of n = c # cs" and c: "digit c \<noteq> None"
    using digits_of_head by blast
  from c have "c \<noteq> CHR ''-''" "c \<noteq> CHR ''+''" using digit_sign by auto
  moreover have "digits_val 0 (c # cs) = Some n"
    using digits_val_digits_of [of n] d by simp
  ultimately show ?thesis using assms d
    by (simp add: Atoi_def del: digits_val.simps)
qed

lemma Atoi_minus_digits_of:
  assumes "int n \<le> 2 ^ 63"
  shows "Atoi (CHR ''-'' # digits_of n) = Some (word_of_int (- int n))"
proof -
  obtain c cs where d: "digits_of n = c # cs"
    using digits_of_head by blast
  have "digits_val 0 (c # cs) = Some n"
    using digits_val_digits_of [of n] d by simp
  then show ?thesis using assms d
    by (simp add: Atoi_def del: digits_val.simps)
qed

lemma Atoi_FormatInt: "Atoi (FormatInt w) = Some w"
proof (cases "sint w < 0")
  case True
  have "- (2 ^ 63) \<le> sint w" using sint_ge [of w] by simp
  then have "int (nat (- sint w)) \<le> 2 ^ 63" using True by simp
  then have "Atoi (CHR ''-'' # digits_of (nat (- sint w)))
               = Some (word_of_int (- int (nat (- sint w))))"
    by (rule Atoi_minus_digits_of)
  with True show ?thesis by (simp add: FormatInt_def)
next
  case False
  have "sint w < 2 ^ 63" using sint_lt [of w] by simp
  then have "int (nat (sint w)) < 2 ^ 63" using False by simp
  then have "Atoi (digits_of (nat (sint w))) = Some (word_of_int (int (nat (sint w))))"
    by (rule Atoi_digits_of)
  with False show ?thesis by (simp add: FormatInt_def)
qed

section \<open>The store commands, one at a time\<close>

lemmas ops = redis_Get_def redis_HGet_def redis_HSet_def redis_HGetAll_def roundtrip_def
  real_error_def val_of_def StringCmd_Int_def int_of_def

lemmas fixtures = fresh_client_def seeded_client_def post_def get_req_def undecodable_def

lemma map_of_hash_put: "map_of (hash_put f v h) g = (if g = f then Some v else map_of h g)"
  by (induction h) auto

lemma fst_hash_put: "fst ` set (hash_put f v h) = insert f (fst ` set h)"
  by (induction f v h rule: hash_put.induct) auto

text \<open>HSET keeps every field of a hash unique.\<close>

lemma distinct_hash_put: "distinct (map fst h) \<Longrightarrow> distinct (map fst (hash_put f v h))"
  by (induction f v h rule: hash_put.induct) (auto simp: fst_hash_put)

lemma snd_redis_Get: "snd (redis_Get k rc) = rc\<lparr>issued := issued rc @ [GET k]\<rparr>"
  by (simp add: redis_Get_def roundtrip_def)

lemma snd_redis_HGet: "snd (redis_HGet k f rc) = rc\<lparr>issued := issued rc @ [HGET k f]\<rparr>"
  by (simp add: redis_HGet_def roundtrip_def)

lemma snd_redis_HGetAll: "snd (redis_HGetAll k rc) = rc\<lparr>issued := issued rc @ [HGETALL k]\<rparr>"
  by (simp add: redis_HGetAll_def roundtrip_def)

lemma issued_redis_HSet: "issued (snd (redis_HSet k f v rc)) = issued rc @ [HSET k f v]"
  by (simp add: redis_HSet_def roundtrip_def split: option.splits rvalue.splits)

lemma db_redis_HSet_other: "k' \<noteq> k \<Longrightarrow> db (snd (redis_HSet k f v rc)) k' = db rc k'"
  by (simp add: redis_HSet_def roundtrip_def split: option.splits rvalue.splits)

text \<open>
  A CORS preflight (method OPTIONS) leaves each of the four handlers before the body is
  decoded: nothing is written, which net/http sends as 200 with an empty body.
\<close>

lemma preflight_returns_at_once:
  assumes "rmethod r = MethodOptions"
  shows "SignupHandler r rc = (no_write, rc)" and "LoginHandler r rc = (no_write, rc)"
    and "UpdateScoreHandler r rc = (no_write, rc)"
    and "GetHighestScoreHandler r rc = (no_write, rc)"
  using assms
  by (simp_all add: SignupHandler_def LoginHandler_def UpdateScoreHandler_def
      GetHighestScoreHandler_def)

section \<open>Signup\<close>

text \<open>
  C1. Signing up the same email twice: the specification expects 201 for the first
  request, then 400 with the message "User already exists" and no write to the store.

  SignupHandler looks the email up with GET, as a key of its own, and stores the password
  with HSET as a field of the hash "users". The lookup therefore never sees what an
  earlier signup stored. On a fresh store the second signup for \<open>a@b.c\<close> is answered 201
  again, it sends an HSET, and the password of the first signup is overwritten.
\<close>

theorem Signup_duplicate_created_again:
  "status (fst (SignupHandler (post ''a@b.c'' ''pw'' 0) fresh_client)) = 201 \<and>
   fst (SignupHandler (post ''a@b.c'' ''other'' 0)
          (snd (SignupHandler (post ''a@b.c'' ''pw'' 0) fresh_client)))
     = Fprintln 201 ''User signed up successfully'' \<and>
   since (snd (SignupHandler (post ''a@b.c'' ''pw'' 0) fresh_client))
         (snd (SignupHandler (post ''a@b.c'' ''other'' 0)
                 (snd (SignupHandler (post ''a@b.c'' ''pw'' 0) fresh_client))))
     = [GET ''a@b.c'', HSET ''users'' ''a@b.c'' ''other''] \<and>
   field_of (db (snd (SignupHandler (post ''a@b.c'' ''other'' 0)
                 (snd (SignupHandler (post ''a@b.c'' ''pw'' 0) fresh_client)))))
      ''users'' ''a@b.c'' = Some ''other''"
  by (simp add: SignupHandler_def ops fixtures Fprintln_def since_def field_of_def)

text \<open>
  The same for every store that answers and every email: once a signup has returned 201,
  a second signup for that email is never answered 400. It is answered 201 again, except
  for the email "users", whose lookup now meets the hash and fails with WRONGTYPE.
\<close>

lemma Signup_second_never_rejected:
  assumes "healthy rc"
    and "rmethod r \<noteq> MethodOptions" and "rbody r = Some u"
    and "rmethod r' \<noteq> MethodOptions" and "rbody r' = Some u'" and "Email u' = Email u"
    and "status (fst (SignupHandler r rc)) = 201"
  shows "status (fst (SignupHandler r' (snd (SignupHandler r rc)))) =
           (if Email u = ''users'' then 500 else 201)"
  using assms
  by (cases "db rc (Email u)"; cases "db rc ''users''"; cases "Email u = ''users''")
     (simp_all add: SignupHandler_def ops healthy_def Fprintln_def http_Error_def Encode_def
        split: rvalue.splits if_splits)

section \<open>Login\<close>

text \<open>
  What LoginHandler does on a store that answers: the three outcomes of the specification,
  but decided by the string stored under the email as a key of its own, and a 500 when
  that key holds a hash. The "users" collection is not consulted.
\<close>

lemma Login_reads_string_key:
  assumes "healthy rc" and "rmethod r \<noteq> MethodOptions" and "rbody r = Some u"
  shows "fst (LoginHandler r rc) =
     (case db rc (Email u) of
        None \<Rightarrow> http_Error ''User not found'' 404
      | Some (Hash h) \<Rightarrow> http_Error ''Error retrieving user data'' 500
      | Some (Str password) \<Rightarrow>
          if Password u \<noteq> password then Encode 401 (ErrorResponse ''Incorrect password'')
          else Encode 200 (ErrorResponse ''Login successful''))"
  using assms
  by (auto simp add: LoginHandler_def ops healthy_def split: option.splits rvalue.splits)

text \<open>
  C2. Login after a successful signup: the specification expects 200 with the right
  password, 401 with a wrong one, and 404 for an email never signed up.

  After the signup of \<open>a@b.c\<close> with password \<open>pw\<close> on a fresh store (answered 201), the
  login with the same email and password is answered 404 "User not found": the password
  is a field of the hash "users", and LoginHandler asks for the key \<open>a@b.c\<close>.
\<close>

theorem Login_after_signup_not_found:
  "status (fst (SignupHandler (post ''a@b.c'' ''pw'' 0) fresh_client)) = 201 \<and>
   fst (LoginHandler (post ''a@b.c'' ''pw'' 0)
          (snd (SignupHandler (post ''a@b.c'' ''pw'' 0) fresh_client)))
     = http_Error ''User not found'' 404"
  by (simp add: SignupHandler_def LoginHandler_def ops fixtures Fprintln_def)

text \<open>
  C6. Login is decided by the stored password of the email: 404 when there is none, 401
  when it differs from the one given, 200 when it is equal.

  The stored password of the specification is the entry of the "users" collection. With
  the entry \<open>a@b.c \<mapsto> pw\<close> in that collection, the login with the equal password and the
  login with a different one are both answered 404, where the claim has 200 and 401.
\<close>

theorem Login_ignores_user_collection:
  "field_of (db (seeded_client [(''a@b.c'', ''pw'')])) ''users'' ''a@b.c'' = Some ''pw'' \<and>
   fst (LoginHandler (post ''a@b.c'' ''pw'' 0) (seeded_client [(''a@b.c'', ''pw'')]))
     = http_Error ''User not found'' 404 \<and>
   fst (LoginHandler (post ''a@b.c'' ''wrong'' 0) (seeded_client [(''a@b.c'', ''pw'')]))
     = http_Error ''User not found'' 404"
  by (simp add: LoginHandler_def ops fixtures field_of_def)

section \<open>UpdateScore and GetScore\<close>

text \<open>
  One UpdateScore on a store that answers, for an email whose entry in the "users"
  collection is a non-empty password and whose score reads as \<open>prev\<close>: the answer is
  200, the score reads as \<open>prev + delta\<close> afterwards (Go's \<^verbatim>\<open>int\<close> addition, which wraps
  at 64 bits), and the "users" collection is as before.
\<close>

lemma UpdateScore_step:
  assumes "healthy rc" and "rmethod r \<noteq> MethodOptions" and "rbody r = Some u"
    and "field_of (db rc) ''users'' (Email u) = Some p" and "p \<noteq> []"
    and "score_of (db rc) (Email u) = Some prev"
  shows "fst (UpdateScoreHandler r rc) = Fprintln 200 ''User score updated successfully''"
    and "score_of (db (snd (UpdateScoreHandler r rc))) (Email u) = Some (prev + Score u)"
    and "healthy (snd (UpdateScoreHandler r rc))"
    and "field_of (db (snd (UpdateScoreHandler r rc))) ''users'' = field_of (db rc) ''users''"
  using assms
  by (auto simp add: UpdateScoreHandler_def ops healthy_def field_of_def score_of_def Let_def
        Atoi_FormatInt map_of_hash_put
      split: option.splits rvalue.splits sum.splits)

lemma GetScore_reads:
  assumes "healthy rc" and "rmethod r \<noteq> MethodOptions" and "rbody r = Some u"
    and "score_of (db rc) (Email u) = Some s"
  shows "fst (GetHighestScoreHandler r rc) = Encode 200 (JObj [(''score'', JNum (sint s))])"
  using assms
  by (auto simp add: GetHighestScoreHandler_def ops healthy_def score_of_def
      split: option.splits rvalue.splits sum.splits)

text \<open>
  Accumulation where the guard of UpdateScoreHandler lets the request through, that is
  for an email whose entry in the user collection is not the empty string: on a store
  that answers, two UpdateScore requests for that email are each answered 200, the
  stored score after each call is the previous score (0 if absent) plus the request's
  delta, in Go's 64-bit \<^verbatim>\<open>int\<close> arithmetic, and a GetScore for the email then returns
  that sum as \<open>{score: ...}\<close>.
\<close>

theorem UpdateScore_accumulates:
  assumes "healthy rc"
    and "field_of (db rc) ''users'' e = Some p" and "p \<noteq> []"
    and "score_of (db rc) e = Some prev"
    and "rmethod r1 \<noteq> MethodOptions" and "rbody r1 = Some u1" and "Email u1 = e"
    and "rmethod r2 \<noteq> MethodOptions" and "rbody r2 = Some u2" and "Email u2 = e"
    and "rmethod r3 \<noteq> MethodOptions" and "rbody r3 = Some u3" and "Email u3 = e"
  shows "fst (UpdateScoreHandler r1 rc) = Fprintln 200 ''User score updated successfully'' \<and>
         score_of (db (snd (UpdateScoreHandler r1 rc))) e = Some (prev + Score u1) \<and>
         fst (UpdateScoreHandler r2 (snd (UpdateScoreHandler r1 rc)))
           = Fprintln 200 ''User score updated successfully'' \<and>
         score_of (db (snd (UpdateScoreHandler r2 (snd (UpdateScoreHandler r1 rc))))) e
           = Some (prev + Score u1 + Score u2) \<and>
         fst (GetHighestScoreHandler r3
                (snd (UpdateScoreHandler r2 (snd (UpdateScoreHandler r1 rc)))))
           = Encode 200 (JObj [(''score'', JNum (sint (prev + Score u1 + Score u2)))])"
proof -
  let ?rc1 = "snd (UpdateScoreHandler r1 rc)"
  let ?rc2 = "snd (UpdateScoreHandler r2 ?rc1)"
  have u1: "field_of (db rc) ''users'' (Email u1) = Some p"
    and s1: "score_of (db rc) (Email u1) = Some prev"
    using assms by simp_all
  note step1 = UpdateScore_step [OF assms(1) assms(5) assms(6) u1 assms(3) s1]
  have h1: "healthy ?rc1" by (rule step1(3))
  have f1: "field_of (db ?rc1) ''users'' (Email u2) = Some p"
    using step1(4) assms by simp
  have sc1: "score_of (db ?rc1) (Email u2) = Some (prev + Score u1)"
    using step1(2) assms by simp
  note step2 = UpdateScore_step [OF h1 assms(8) assms(9) f1 assms(3) sc1]
  have sc2: "score_of (db ?rc2) (Email u3) = Some (prev + Score u1 + Score u2)"
    using step2(2) assms by simp
  have g: "fst (GetHighestScoreHandler r3 ?rc2)
             = Encode 200 (JObj [(''score'', JNum (sint (prev + Score u1 + Score u2)))])"
    by (rule GetScore_reads [OF step2(3) assms(11) assms(12) sc2])
  show ?thesis
    using step1(1) step1(2) step2(1) step2(2) g assms(7) assms(10) by simp
qed

text \<open>
  The scenario of the specification for the user \<open>a@b.c\<close> with password \<open>pw\<close>: no
  score entry, deltas 5 and 3, then GetScore returns \<open>{score: 8}\<close>.
\<close>

theorem UpdateScore_accumulates_witness:
  "healthy (seeded_client [(''a@b.c'', ''pw'')]) \<and>
   field_of (db (seeded_client [(''a@b.c'', ''pw'')])) ''users'' ''a@b.c'' = Some ''pw'' \<and>
   score_of (db (seeded_client [(''a@b.c'', ''pw'')])) ''a@b.c'' = Some 0 \<and>
   fst (UpdateScoreHandler (post ''a@b.c'' [] 5) (seeded_client [(''a@b.c'', ''pw'')]))
     = Fprintln 200 ''User score updated successfully'' \<and>
   fst (UpdateScoreHandler (post ''a@b.c'' [] 3)
          (snd (UpdateScoreHandler (post ''a@b.c'' [] 5) (seeded_client [(''a@b.c'', ''pw'')]))))
     = Fprintln 200 ''User score updated successfully'' \<and>
   fst (GetHighestScoreHandler (get_req ''a@b.c'')
          (snd (UpdateScoreHandler (post ''a@b.c'' [] 3)
             (snd (UpdateScoreHandler (post ''a@b.c'' [] 5)
                (seeded_client [(''a@b.c'', ''pw'')]))))))
     = Encode 200 (JObj [(''score'', JNum 8)])"
proof -
  have h: "healthy (seeded_client [(''a@b.c'', ''pw'')])"
    by (simp add: healthy_def seeded_client_def)
  have f: "field_of (db (seeded_client [(''a@b.c'', ''pw'')])) ''users'' ''a@b.c'' = Some ''pw''"
    by (simp add: field_of_def seeded_client_def)
  have s: "score_of (db (seeded_client [(''a@b.c'', ''pw'')])) ''a@b.c'' = Some 0"
    by (simp add: score_of_def seeded_client_def)
  have ne: "''pw'' \<noteq> []" by simp
  show ?thesis
    using h f s
      UpdateScore_accumulates [OF h f ne s, of "post ''a@b.c'' [] 5" _ "post ''a@b.c'' [] 3" _
        "get_req ''a@b.c''"]
    by (simp add: post_def get_req_def)
qed

text \<open>
  C3. UpdateScore accumulates: for every email present in the user collection with no
  prior score entry, two sequential UpdateScore calls with deltas 5 and 3 each return
  200, and a subsequent GetScore returns \<open>{score: 8}\<close>; the stored score after each call
  is the previous score (0 if absent) plus the delta.

  UpdateScoreHandler checks that the user exists with \<^verbatim>\<open>val == ""\<close> on the result of
  HGET, which is also what a stored empty password gives. The signup of \<open>a@b.c\<close> with
  an empty password on a fresh store is answered 201, the email is in the user
  collection and GetAllUsersHandler lists it, there is no score entry; yet both
  UpdateScore calls are answered 404 "User not found", nothing is stored under
  "scores", and GetScore returns \<open>{score: 0}\<close>.
\<close>

theorem UpdateScore_misses_user_with_empty_password:
  "status (fst (SignupHandler (post ''a@b.c'' [] 0) fresh_client)) = 201 \<and>
   field_of (db (snd (SignupHandler (post ''a@b.c'' [] 0) fresh_client))) ''users'' ''a@b.c''
     = Some [] \<and>
   field_of (db (snd (SignupHandler (post ''a@b.c'' [] 0) fresh_client))) ''scores'' ''a@b.c''
     = None \<and>
   fst (GetAllUsersHandler (get_req [])
          (snd (SignupHandler (post ''a@b.c'' [] 0) fresh_client)))
     = Encode 200 (JArr [User_json \<lparr>Email = ''a@b.c'', Password = [], Score = 0\<rparr>]) \<and>
   fst (UpdateScoreHandler (post ''a@b.c'' [] 5)
          (snd (SignupHandler (post ''a@b.c'' [] 0) fresh_client)))
     = Encode 404 (ErrorResponse ''User not found'') \<and>
   fst (UpdateScoreHandler (post ''a@b.c'' [] 3)
          (snd (UpdateScoreHandler (post ''a@b.c'' [] 5)
             (snd (SignupHandler (post ''a@b.c'' [] 0) fresh_client)))))
     = Encode 404 (ErrorResponse ''User not found'') \<and>
   db (snd (UpdateScoreHandler (post ''a@b.c'' [] 3)
          (snd (UpdateScoreHandler (post ''a@b.c'' [] 5)
             (snd (SignupHandler (post ''a@b.c'' [] 0) fresh_client)))))) ''scores'' = None \<and>
   fst (GetHighestScoreHandler (get_req ''a@b.c'')
          (snd (UpdateScoreHandler (post ''a@b.c'' [] 3)
             (snd (UpdateScoreHandler (post ''a@b.c'' [] 5)
                (snd (SignupHandler (post ''a@b.c'' [] 0) fresh_client)))))))
     = Encode 200 (JObj [(''score'', JNum 0)])"
  by (simp add: SignupHandler_def UpdateScoreHandler_def GetAllUsersHandler_def
        GetHighestScoreHandler_def ops fixtures Fprintln_def field_of_def append_user_def
        Marshal_def)

text \<open>
  The sum is Go's: at the largest \<^verbatim>\<open>int\<close> a delta of 1 is answered 200 as well, and the
  score stored is the smallest one.
\<close>

lemma UpdateScore_wraps:
  assumes "healthy rc" and "rmethod r \<noteq> MethodOptions" and "rbody r = Some u"
    and "field_of (db rc) ''users'' (Email u) = Some p" and "p \<noteq> []"
    and "score_of (db rc) (Email u) = Some 9223372036854775807" and "Score u = 1"
  shows "\<exists>w. score_of (db (snd (UpdateScoreHandler r rc))) (Email u) = Some w \<and>
             sint w = - 9223372036854775808"
proof -
  have "score_of (db (snd (UpdateScoreHandler r rc))) (Email u)
          = Some (9223372036854775807 + Score u)"
    by (rule UpdateScore_step(2) [OF assms(1-6)])
  moreover have "sint (9223372036854775807 + 1 :: goint) = - 9223372036854775808"
    by simp
  ultimately show ?thesis using assms(7) by simp
qed

lemma Atoi_bounds:
  "Atoi ''9223372036854775807'' = Some 9223372036854775807"
  "Atoi ''9223372036854775808'' = None"
  "Atoi ''-9223372036854775808'' = Some (- 9223372036854775808)"
  by (simp_all add: Atoi_def digit_def)

text \<open>
  C4. For every well-formed UpdateScore request whose email is not present in the user
  collection, the handler returns 404 with the structured message "User not found" and
  writes nothing to the scores collection.

  Well-formed: not a preflight, and a body that decodes. The store answers, and "users"
  is a collection (absent, or a hash). The handler then sends the one HGET and nothing
  else, so the whole keyspace is as before.
\<close>

theorem UpdateScore_unknown_user:
  assumes "healthy rc" and "rmethod r \<noteq> MethodOptions" and "rbody r = Some u"
    and "is_coll (db rc) ''users''" and "field_of (db rc) ''users'' (Email u) = None"
  shows "UpdateScoreHandler r rc =
           (Encode 404 (ErrorResponse ''User not found''),
            rc\<lparr>issued := issued rc @ [HGET ''users'' (Email u)]\<rparr>)"
  using assms
  by (simp add: UpdateScoreHandler_def ops healthy_def is_coll_def field_of_def
      split: option.splits rvalue.splits)

theorem UpdateScore_unknown_user_witness:
  "healthy fresh_client \<and> is_coll (db fresh_client) ''users'' \<and>
   field_of (db fresh_client) ''users'' ''a@b.c'' = None \<and>
   UpdateScoreHandler (post ''a@b.c'' [] 5) fresh_client =
     (Encode 404 (ErrorResponse ''User not found''),
      fresh_client\<lparr>issued := [HGET ''users'' ''a@b.c'']\<rparr>)"
proof -
  have h: "healthy fresh_client" by (simp add: healthy_def fresh_client_def)
  have m: "rmethod (post ''a@b.c'' [] 5) \<noteq> MethodOptions" by (simp add: post_def)
  have b: "rbody (post ''a@b.c'' [] 5) = Some \<lparr>Email = ''a@b.c'', Password = [], Score = 5\<rparr>"
    by (simp add: post_def)
  have c: "is_coll (db fresh_client) ''users''" by (simp add: is_coll_def fresh_client_def)
  have f: "field_of (db fresh_client) ''users''
             (Email \<lparr>Email = ''a@b.c'', Password = [], Score = 5\<rparr>) = None"
    by (simp add: field_of_def fresh_client_def)
  show ?thesis
    using h c f UpdateScore_unknown_user [OF h m b c f]
    by (simp add: fresh_client_def)
qed

text \<open>
  C9. UpdateScore takes an empty stored password for absence: for every email whose
  entry in the user collection is the empty string, a well-formed UpdateScore request is
  answered 404 "User not found" and the score is not updated (the handler sends the one
  HGET and nothing else), although the email is in the user collection.
\<close>

theorem UpdateScore_empty_password_not_found:
  assumes "healthy rc" and "rmethod r \<noteq> MethodOptions" and "rbody r = Some u"
    and "field_of (db rc) ''users'' (Email u) = Some []"
  shows "UpdateScoreHandler r rc =
           (Encode 404 (ErrorResponse ''User not found''),
            rc\<lparr>issued := issued rc @ [HGET ''users'' (Email u)]\<rparr>)"
  using assms
  by (simp add: UpdateScoreHandler_def ops healthy_def field_of_def
      split: option.splits rvalue.splits)

theorem UpdateScore_empty_password_not_found_witness:
  "healthy (seeded_client [(''a@b.c'', [])]) \<and>
   field_of (db (seeded_client [(''a@b.c'', [])])) ''users'' ''a@b.c'' = Some [] \<and>
   UpdateScoreHandler (post ''a@b.c'' [] 5) (seeded_client [(''a@b.c'', [])]) =
     (Encode 404 (ErrorResponse ''User not found''),
      (seeded_client [(''a@b.c'', [])])\<lparr>issued := [HGET ''users'' ''a@b.c'']\<rparr>)"
proof -
  have h: "healthy (seeded_client [(''a@b.c'', [])])"
    by (simp add: healthy_def seeded_client_def)
  have m: "rmethod (post ''a@b.c'' [] 5) \<noteq> MethodOptions" by (simp add: post_def)
  have b: "rbody (post ''a@b.c'' [] 5) = Some \<lparr>Email = ''a@b.c'', Password = [], Score = 5\<rparr>"
    by (simp add: post_def)
  have f: "field_of (db (seeded_client [(''a@b.c'', [])])) ''users''
             (Email \<lparr>Email = ''a@b.c'', Password = [], Score = 5\<rparr>) = Some []"
    by (simp add: field_of_def seeded_client_def)
  show ?thesis
    using h f UpdateScore_empty_password_not_found [OF h m b f]
    by (simp add: seeded_client_def)
qed

text \<open>
  C5. GetScore never fails for a missing score: for every well-formed request whose
  email has no entry in the scores collection, GetScore returns 200 with the JSON body
  \<open>{score: 0}\<close>, not an error status.

  Well-formed, and the store, as for C4; "scores" is a collection (absent, or a hash).
\<close>

theorem GetScore_missing_is_zero:
  assumes "healthy rc" and "rmethod r \<noteq> MethodOptions" and "rbody r = Some u"
    and "is_coll (db rc) ''scores''" and "field_of (db rc) ''scores'' (Email u) = None"
  shows "GetHighestScoreHandler r rc =
           (Encode 200 (JObj [(''score'', JNum 0)]),
            rc\<lparr>issued := issued rc @ [HGET ''scores'' (Email u)]\<rparr>)"
  using assms
  by (auto simp add: GetHighestScoreHandler_def ops healthy_def is_coll_def field_of_def
      split: option.splits rvalue.splits)

theorem GetScore_missing_is_zero_witness:
  "healthy (seeded_client [(''a@b.c'', ''pw'')]) \<and>
   is_coll (db (seeded_client [(''a@b.c'', ''pw'')])) ''scores'' \<and>
   field_of (db (seeded_client [(''a@b.c'', ''pw'')])) ''scores'' ''nobody'' = None \<and>
   GetHighestScoreHandler (get_req ''nobody'') (seeded_client [(''a@b.c'', ''pw'')]) =
     (Encode 200 (JObj [(''score'', JNum 0)]),
      (seeded_client [(''a@b.c'', ''pw'')])\<lparr>issued := [HGET ''scores'' ''nobody'']\<rparr>)"
proof -
  have h: "healthy (seeded_client [(''a@b.c'', ''pw'')])"
    by (simp add: healthy_def seeded_client_def)
  have m: "rmethod (get_req ''nobody'') \<noteq> MethodOptions" by (simp add: get_req_def)
  have b: "rbody (get_req ''nobody'') = Some \<lparr>Email = ''nobody'', Password = [], Score = 0\<rparr>"
    by (simp add: get_req_def)
  have c: "is_coll (db (seeded_client [(''a@b.c'', ''pw'')])) ''scores''"
    by (simp add: is_coll_def seeded_client_def)
  have f: "field_of (db (seeded_client [(''a@b.c'', ''pw'')])) ''scores''
             (Email \<lparr>Email = ''nobody'', Password = [], Score = 0\<rparr>) = None"
    by (simp add: field_of_def seeded_client_def)
  show ?thesis
    using h c f GetScore_missing_is_zero [OF h m b c f]
    by (simp add: seeded_client_def)
qed

section \<open>ListUsers\<close>

lemma fold_append_user:
  "fold (\<lambda>x users. append_user users (mk x)) h (Some us) = Some (us @ map mk h)"
  by (induction h arbitrary: us) (simp_all add: append_user_def)

text \<open>The loop over the map: the slice stays nil exactly when the map has no entry.\<close>

lemma range_usersMap:
  "fold (\<lambda>x users. append_user users (mk x)) h None = (if h = [] then None else Some (map mk h))"
proof (cases h)
  case Nil
  then show ?thesis by simp
next
  case (Cons x h')
  have "append_user None (mk x) = Some [mk x]" by (simp add: append_user_def)
  then show ?thesis using Cons by (simp add: fold_append_user)
qed

text \<open>
  With at least one entry in the "users" collection, on a store that answers, the body
  is a JSON array with one object per entry, carrying the email, the password as stored,
  and the zero score of the struct.
\<close>

lemma GetAllUsers_lists_collection:
  assumes "healthy rc" and "db rc ''users'' = Some (Hash h)" and "h \<noteq> []"
  shows "fst (GetAllUsersHandler r rc) =
     Encode 200 (JArr (map (\<lambda>(email, password).
        User_json \<lparr>Email = email, Password = password, Score = 0\<rparr>) h))"
  using assms
  by (simp add: GetAllUsersHandler_def ops healthy_def case_prod_unfold range_usersMap
      Marshal_def comp_def)

text \<open>A signup answered 400 has not written; a signup answered 201 has stored its entry.\<close>

lemma Signup_rejected_writes_nothing:
  assumes "status (fst (SignupHandler r rc)) = 400"
  shows "db (snd (SignupHandler r rc)) = db rc"
    and "filter is_write (since rc (snd (SignupHandler r rc))) = []"
  using assms
  by (simp_all add: SignupHandler_def case_prod_beta snd_redis_Get since_def no_write_def
      http_Error_def Fprintln_def Encode_def split: option.splits sum.splits if_splits)

lemma Signup_created_stores:
  assumes "rbody r = Some u" and "status (fst (SignupHandler r rc)) = 201"
  shows "field_of (db (snd (SignupHandler r rc))) ''users'' (Email u) = Some (Password u)"
  using assms
  by (auto simp add: SignupHandler_def case_prod_beta snd_redis_Get no_write_def
      http_Error_def Fprintln_def Encode_def redis_HSet_def roundtrip_def field_of_def
      map_of_hash_put split: option.splits sum.splits if_splits rvalue.splits)

text \<open>
  C7. ListUsers returns 200 with a JSON array containing exactly one
  \<open>{email, password}\<close> object for every entry of the store's user collection.

  For a user collection without entries that array is the empty one. The handler
  declares the slice with \<^verbatim>\<open>var users []User\<close>, the loop appends nothing, and
  \<^verbatim>\<open>json.Marshal\<close> of the nil slice is \<^verbatim>\<open>null\<close>: on a fresh store the body is the
  JSON value null, not an array.
\<close>

theorem GetAllUsers_empty_is_null:
  "GetAllUsersHandler (get_req []) fresh_client =
     (Encode 200 JNull, fresh_client\<lparr>issued := [HGETALL ''users'']\<rparr>)"
  by (simp add: GetAllUsersHandler_def ops fixtures Marshal_def)

section \<open>Bodies that do not decode\<close>

text \<open>
  C8. For every request whose body fails JSON decoding, each of the handlers Signup,
  Login, UpdateScore and GetScore returns 400 and performs no store operation, leaving
  the store state unchanged.

  The handlers decode the body of every request that is not a preflight. When Decode
  returns an error the answer is 400 "Invalid request body" and the client is returned as
  it was: no command has been sent, whatever the store would have answered.
\<close>

theorem undecodable_body_rejected:
  assumes "rmethod r \<noteq> MethodOptions" and "rbody r = None"
  shows "SignupHandler r rc = (http_Error ''Invalid request body'' 400, rc) \<and>
         LoginHandler r rc = (http_Error ''Invalid request body'' 400, rc) \<and>
         UpdateScoreHandler r rc = (http_Error ''Invalid request body'' 400, rc) \<and>
         GetHighestScoreHandler r rc = (http_Error ''Invalid request body'' 400, rc)"
  using assms
  by (simp add: SignupHandler_def LoginHandler_def UpdateScoreHandler_def
      GetHighestScoreHandler_def)

theorem undecodable_body_rejected_witness:
  "rmethod (undecodable MethodPost) \<noteq> MethodOptions \<and> rbody (undecodable MethodPost) = None \<and>
   status (fst (SignupHandler (undecodable MethodPost) fresh_client)) = 400 \<and>
   snd (SignupHandler (undecodable MethodPost) fresh_client) = fresh_client \<and>
   status (fst (LoginHandler (undecodable MethodPost) fresh_client)) = 400 \<and>
   snd (LoginHandler (undecodable MethodPost) fresh_client) = fresh_client \<and>
   status (fst (UpdateScoreHandler (undecodable MethodPost) fresh_client)) = 400 \<and>
   snd (UpdateScoreHandler (undecodable MethodPost) fresh_client) = fresh_client \<and>
   status (fst (GetHighestScoreHandler (undecodable MethodPost) fresh_client)) = 400 \<and>
   snd (GetHighestScoreHandler (undecodable MethodPost) fresh_client) = fresh_client"
proof -
  have m: "rmethod (undecodable MethodPost) \<noteq> MethodOptions" by (simp add: undecodable_def)
  have b: "rbody (undecodable MethodPost) = None" by (simp add: undecodable_def)
  show ?thesis
    using m b undecodable_body_rejected [OF m b, of fresh_client]
    by (simp add: http_Error_def)
qed

section \<open>What the handlers leave alone\<close>

lemma Login_read_only:
  "db (snd (LoginHandler r rc)) = db rc \<and>
   filter is_write (since rc (snd (LoginHandler r rc))) = []"
  by (simp add: LoginHandler_def case_prod_beta snd_redis_Get since_def
      split: option.splits sum.splits)

lemma GetAllUsers_read_only:
  "db (snd (GetAllUsersHandler r rc)) = db rc \<and>
   filter is_write (since rc (snd (GetAllUsersHandler r rc))) = []"
  by (simp add: GetAllUsersHandler_def case_prod_beta snd_redis_HGetAll since_def Let_def
      split: sum.splits)

lemma GetHighestScore_read_only:
  "db (snd (GetHighestScoreHandler r rc)) = db rc \<and>
   filter is_write (since rc (snd (GetHighestScoreHandler r rc))) = []"
  by (simp add: GetHighestScoreHandler_def case_prod_beta snd_redis_HGet since_def
      split: option.splits)

lemma UpdateScore_keeps_users:
  "db (snd (UpdateScoreHandler r rc)) ''users'' = db rc ''users'' \<and>
   filter (writes_key ''users'') (since rc (snd (UpdateScoreHandler r rc))) = []"
  by (simp add: UpdateScoreHandler_def case_prod_beta snd_redis_HGet issued_redis_HSet
      db_redis_HSet_other since_def Let_def split: option.splits sum.splits)

text \<open>
  C10. Login, ListUsers and GetScore are read-only: for every request, well-formed or
  not, and whatever the store answers, the keyspace after LoginHandler,
  GetAllUsersHandler or GetHighestScoreHandler is the keyspace before, and none of the
  commands they send is a write. UpdateScore never modifies the user collection: the
  value under "users" is as before and no write to that key is sent.
\<close>

theorem read_only_handlers:
  "db (snd (LoginHandler r rc)) = db rc \<and>
   filter is_write (since rc (snd (LoginHandler r rc))) = [] \<and>
   db (snd (GetAllUsersHandler r rc)) = db rc \<and>
   filter is_write (since rc (snd (GetAllUsersHandler r rc))) = [] \<and>
   db (snd (GetHighestScoreHandler r rc)) = db rc \<and>
   filter is_write (since rc (snd (GetHighestScoreHandler r rc))) = [] \<and>
   db (snd (UpdateScoreHandler r rc)) ''users'' = db rc ''users'' \<and>
   filter (writes_key ''users'') (since rc (snd (UpdateScoreHandler r rc))) = []"
  using Login_read_only [of r rc] GetAllUsers_read_only [of r rc]
    GetHighestScore_read_only [of r rc] UpdateScore_keeps_users [of r rc]
  by blast

end
